theory Spec2Isabelle
  imports Complex_Main "HOL-Library.Char_ord" "HOL-Library.List_Lexorder"
    "HOL-Library.Product_Lexorder"
begin

section \<open>Data model: the Record Set\<close>

text \<open>
  The analyzers of \<^verbatim>\<open>src/analyzers.py\<close> take a pandas DataFrame. A cell of the frame is a
  loosely typed scalar: a number, a string, or the missing marker (\<^verbatim>\<open>None\<close> / \<^verbatim>\<open>NaN\<close>).
  A number is a finite value or one of the two infinities, which the CSV reader and
  \<^verbatim>\<open>pd.to_numeric\<close> both produce from the text \<^verbatim>\<open>inf\<close>. Finite values are kept exact.
\<close>

datatype number = NegInf | Fin rat | PosInf

datatype scalar = Num number | Str string | NA

text \<open>
  A frame has a fixed set of column names and an ordered sequence of rows; a row maps a
  column name to its cell. Column names are unique.
\<close>

record dataframe =
  df_columns :: "string list"
  df_rows :: "(string \<Rightarrow> scalar) list"

datatype error = KeyError string | IntCastingNaNError

text \<open>\<^verbatim>\<open>data[col]\<close>: the column as a sequence of cells; \<^verbatim>\<open>KeyError\<close> when there is no such column.\<close>

definition getitem :: "dataframe \<Rightarrow> string \<Rightarrow> error + scalar list" where
  "getitem data col =
     (if col \<in> set (df_columns data) then Inr (map (\<lambda>r. r col) (df_rows data))
      else Inl (KeyError col))"

text \<open>\<^verbatim>\<open>len(data)\<close>: the number of rows.\<close>

definition len :: "dataframe \<Rightarrow> int" where
  "len data = int (length (df_rows data))"

text \<open>\<^verbatim>\<open>Series.isna()\<close>, cell by cell, and \<^verbatim>\<open>.sum()\<close> of the resulting booleans.\<close>

definition isna :: "scalar \<Rightarrow> bool" where
  "isna v = (v = NA)"

definition isna_sum :: "scalar list \<Rightarrow> int" where
  "isna_sum vs = int (length (filter isna vs))"

text \<open>
  A Count Series is an ordered sequence of (label, count) entries with unique labels.
\<close>

type_synonym series = "(scalar \<times> int) list"


subsection \<open>The order of labels\<close>

text \<open>
  pandas sorts the labels of one index by their values: numbers by magnitude, strings
  lexicographically by code point, and in an index of mixed type the numbers before the
  strings, missing labels last.
\<close>

fun scalar_key :: "scalar \<Rightarrow> nat \<times> rat \<times> string" where
  "scalar_key (Num NegInf) = (0, 0, [])"
| "scalar_key (Num (Fin q)) = (1, q, [])"
| "scalar_key (Num PosInf) = (2, 0, [])"
| "scalar_key (Str s) = (3, 0, s)"
| "scalar_key NA = (4, 0, [])"

instantiation scalar :: linorder
begin

definition less_eq_scalar :: "scalar \<Rightarrow> scalar \<Rightarrow> bool" where
  "less_eq_scalar a b = (scalar_key a \<le> scalar_key b)"

definition less_scalar :: "scalar \<Rightarrow> scalar \<Rightarrow> bool" where
  "less_scalar a b = (scalar_key a < scalar_key b)"

instance
proof
  fix x y z :: scalar
  have inj: "\<And>a b. scalar_key a = scalar_key b \<Longrightarrow> a = b"
    by (rule scalar_key.elims [OF refl]) (auto elim!: scalar_key.elims)
  show "(x < y) = (x \<le> y \<and> \<not> y \<le> x)"
    by (auto simp: less_eq_scalar_def less_scalar_def)
  show "x \<le> x"
    by (simp add: less_eq_scalar_def)
  show "x \<le> y \<Longrightarrow> y \<le> z \<Longrightarrow> x \<le> z"
    unfolding less_eq_scalar_def by (rule order_trans)
  show "x \<le> y \<Longrightarrow> y \<le> x \<Longrightarrow> x = y"
    unfolding less_eq_scalar_def by (rule inj) (rule antisym)
  show "x \<le> y \<or> y \<le> x"
    unfolding less_eq_scalar_def by (rule linear)
qed

end

subsection \<open>Series operations\<close>

text \<open>\<^verbatim>\<open>Series.dropna()\<close>: the cells that are not missing, in order.\<close>

definition dropna :: "scalar list \<Rightarrow> scalar list" where
  "dropna vs = filter (\<lambda>v. \<not> isna v) vs"

text \<open>
  The distinct values of a sequence in the order of their first appearance: the order in
  which the counting hash table of \<^verbatim>\<open>value_counts\<close> meets them.
\<close>

primrec uniq :: "'a list \<Rightarrow> 'a list" where
  "uniq [] = []"
| "uniq (x # xs) = x # filter (\<lambda>y. y \<noteq> x) (uniq xs)"

text \<open>
  \<^verbatim>\<open>value_counts()\<close> on values none of which is missing: one entry per distinct value with
  the number of its occurrences, most frequent first; entries of equal count stay in the
  order of first appearance. (On a column with missing cells pandas drops them first;
  the analyzers below apply \<open>dropna\<close> before it.)
\<close>

definition value_counts :: "'a list \<Rightarrow> ('a \<times> int) list" where
  "value_counts vs =
     sort_key (\<lambda>e. - snd e) (map (\<lambda>k. (k, int (count_list vs k))) (uniq vs))"

text \<open>\<^verbatim>\<open>sort_index()\<close>: the entries by ascending label.\<close>

definition sort_index :: "('a::linorder \<times> int) list \<Rightarrow> ('a \<times> int) list" where
  "sort_index s = sort_key fst s"

text \<open>\<^verbatim>\<open>head(n)\<close>: the first \<open>n\<close> entries.\<close>

definition head :: "nat \<Rightarrow> 'a list \<Rightarrow> 'a list" where
  "head n s = take n s"

text \<open>
  \<^verbatim>\<open>series[label] = value\<close> on a series with unique labels: an existing label keeps its
  place and gets the new value, a new label is appended.
\<close>

fun series_setitem :: "('k \<times> int) list \<Rightarrow> 'k \<Rightarrow> int \<Rightarrow> ('k \<times> int) list" where
  "series_setitem [] label v = [(label, v)]"
| "series_setitem ((k, c) # s) label v =
     (if k = label then (k, v) # s else (k, c) # series_setitem s label v)"

subsection \<open>Numeric coercion\<close>

text \<open>
  \<^verbatim>\<open>pd.to_numeric(..., errors='coerce')\<close>, cell by cell: a number stays, a missing cell
  stays missing (\<open>None\<close>, pandas' NaN), and a string goes through the library's text
  parser, which is a parameter here: a string it cannot read becomes missing.
\<close>

definition to_numeric :: "(string \<Rightarrow> number option) \<Rightarrow> scalar \<Rightarrow> number option" where
  "to_numeric parse v = (case v of Num n \<Rightarrow> Some n | Str s \<Rightarrow> parse s | NA \<Rightarrow> None)"

text \<open>\<^verbatim>\<open>.dropna()\<close> on the numeric series.\<close>

definition dropna_numeric :: "number option list \<Rightarrow> number list" where
  "dropna_numeric ns = concat (map (\<lambda>n. case n of None \<Rightarrow> [] | Some v \<Rightarrow> [v]) ns)"

fun is_finite :: "number \<Rightarrow> bool" where
  "is_finite (Fin q) = True"
| "is_finite NegInf = False"
| "is_finite PosInf = False"

text \<open>
  The integer a finite value is cast to: its fraction is cut off (rounding toward zero).
  A value whose integer part does not fit 64 bits is cast to an integer far outside the
  year window of the analyzer, as its exact integer part is, so the model keeps the
  exact integer part.
\<close>

fun to_int :: "number \<Rightarrow> int" where
  "to_int (Fin q) = (if 0 \<le> q then \<lfloor>q\<rfloor> else \<lceil>q\<rceil>)"
| "to_int NegInf = 0"
| "to_int PosInf = 0"

text \<open>
  \<^verbatim>\<open>.astype(int)\<close> on a numeric series without NaN: pandas raises
  \<^verbatim>\<open>IntCastingNaNError\<close> ("Cannot convert non-finite values (NA or inf) to integer")
  when a value is infinite, and casts every value otherwise.
\<close>

definition astype_int :: "number list \<Rightarrow> error + int list" where
  "astype_int ns =
     (if list_all is_finite ns then Inr (map to_int ns) else Inl IntCastingNaNError)"

text \<open>
  \<^verbatim>\<open>data.dropna(subset=[col])\<close>: a new frame with the rows whose cell in \<open>col\<close> is not
  missing; \<^verbatim>\<open>KeyError\<close> when there is no such column.
\<close>

definition dropna_subset :: "dataframe \<Rightarrow> string \<Rightarrow> error + dataframe" where
  "dropna_subset data col =
     (if col \<in> set (df_columns data)
      then Inr (data\<lparr>df_rows := filter (\<lambda>r. \<not> isna (r col)) (df_rows data)\<rparr>)
      else Inl (KeyError col))"

section \<open>Missing-ISBN Ratio\<close>

text \<open>
  \<^verbatim>\<open>
  def analyze(self, data):
      total = len(data)
      missing_count = data['ISBN'].isna().sum()
      present_count = total - missing_count
      return pd.Series([missing_count, present_count], index=['Missing ISBN', 'With ISBN'])
  \<close>
\<close>

definition MissingISBNAnalyzer_analyze :: "dataframe \<Rightarrow> error + series" where
  "MissingISBNAnalyzer_analyze data =
     (let total = len data in
      case getitem data ''ISBN'' of
        Inl e \<Rightarrow> Inl e
      | Inr isbn \<Rightarrow>
          (let missing_count = isna_sum isbn;
               present_count = total - missing_count
           in Inr [(Str ''Missing ISBN'', missing_count), (Str ''With ISBN'', present_count)]))"

section \<open>Top Authors, Language Distribution, Publisher Counts\<close>

text \<open>
  \<^verbatim>\<open>
  authors = data['author'].value_counts().head(5)
  languages = data['language'].value_counts()
  publishers = data['book publisher'].value_counts()
  \<close>
\<close>

definition AuthorsAnalyzer_analyze :: "dataframe \<Rightarrow> error + series" where
  "AuthorsAnalyzer_analyze data =
     (case getitem data ''author'' of
        Inl e \<Rightarrow> Inl e
      | Inr author \<Rightarrow> Inr (head 5 (value_counts (dropna author))))"

definition LanguageDistributionAnalyzer_analyze :: "dataframe \<Rightarrow> error + series" where
  "LanguageDistributionAnalyzer_analyze data =
     (case getitem data ''language'' of
        Inl e \<Rightarrow> Inl e
      | Inr language \<Rightarrow> Inr (value_counts (dropna language)))"

definition PublisherAnalyzer_analyze :: "dataframe \<Rightarrow> error + series" where
  "PublisherAnalyzer_analyze data =
     (case getitem data ''book publisher'' of
        Inl e \<Rightarrow> Inl e
      | Inr publisher \<Rightarrow> Inr (value_counts (dropna publisher)))"

section \<open>Publication Trend\<close>

text \<open>
  The strategy calls three routines that work on floating-point numbers and are not part
  of the repository: the text parser of \<^verbatim>\<open>pd.to_numeric\<close>, \<^verbatim>\<open>scipy.stats.linregress\<close>
  (of which the slope, the intercept and the correlation coefficient are used) and the
  \<^verbatim>\<open>:.2f\<close> formatting of a float. They are parameters of the model, over an arbitrary
  type \<open>'f\<close> of floats. \<^verbatim>\<open>linregress\<close> is called with at least one point and with pairwise
  distinct years, where it returns (NaN for a single point) and does not raise.
\<close>

record 'f externals =
  parse_number :: "string \<Rightarrow> number option"
  linregress :: "int list \<Rightarrow> int list \<Rightarrow> 'f \<times> 'f \<times> 'f"
  format_2f :: "'f \<Rightarrow> string"
  square :: "'f \<Rightarrow> 'f"

record 'f trend_line =
  slope :: 'f
  intercept :: 'f
  r_value :: 'f
  description :: string

record 'f trend_result =
  counts :: "(int \<times> int) list"
  trend_line :: "'f trend_line option"

text \<open>
  \<^verbatim>\<open>
  def analyze(self, data):
      data = data.dropna(subset=['publication date'])
      years = pd.to_numeric(data['publication date'], errors='coerce').dropna().astype(int)
      years = years[(years > 1000) & (years < 2100)]
      trends = years.value_counts().sort_index()
      if not trends.empty:
          x = trends.index.to_numpy()
          y = trends.values
          slope, intercept, r_value, p_value, std_err = stats.linregress(x, y)
          return {"counts": trends,
                  "trend_line": {"slope": slope, "intercept": intercept, "r_value": r_value,
                     "description": f"Linear Trend: y = {slope:.2f}x + {intercept:.2f} (R2={r_value**2:.2f})"}}
      return {"counts": trends, "trend_line": None}
  \<close>
\<close>

definition year_counts :: "int list \<Rightarrow> (int \<times> int) list" where
  "year_counts years0 =
     (let years = filter (\<lambda>y. 1000 < y \<and> y < 2100) years0
      in sort_index (value_counts years))"

definition fit_trend :: "'f externals \<Rightarrow> (int \<times> int) list \<Rightarrow> 'f trend_line" where
  "fit_trend ext trends =
     (let x = map fst trends;
          y = map snd trends;
          (slope, intercept, r_value) = linregress ext x y
      in \<lparr> slope = slope, intercept = intercept, r_value = r_value,
           description = ''Linear Trend: y = '' @ format_2f ext slope @ ''x + ''
             @ format_2f ext intercept @ '' (R2='' @ format_2f ext (square ext r_value)
             @ '')'' \<rparr>)"

text \<open>
  The first line rebinds the local name \<open>data\<close> to the frame that \<^verbatim>\<open>dropna\<close> returns;
  \<open>trend_of_dates\<close> is the rest of the method on that frame.
\<close>

definition trend_of_dates :: "'f externals \<Rightarrow> dataframe \<Rightarrow> error + 'f trend_result" where
  "trend_of_dates ext data =
     (case getitem data ''publication date'' of
        Inl e \<Rightarrow> Inl e
      | Inr col \<Rightarrow>
         (case astype_int (dropna_numeric (map (to_numeric (parse_number ext)) col)) of
            Inl e \<Rightarrow> Inl e
          | Inr years0 \<Rightarrow>
             (let trends = year_counts years0
              in if trends \<noteq> []
                 then Inr \<lparr> counts = trends, trend_line = Some (fit_trend ext trends) \<rparr>
                 else Inr \<lparr> counts = trends, trend_line = None \<rparr>)))"

definition PublicationTrendAnalyzer_analyze ::
  "'f externals \<Rightarrow> dataframe \<Rightarrow> error + 'f trend_result" where
  "PublicationTrendAnalyzer_analyze ext data0 =
     (case dropna_subset data0 ''publication date'' of
        Inl e \<Rightarrow> Inl e
      | Inr data \<Rightarrow> trend_of_dates ext data)"

section \<open>Language-by-Year Grid\<close>

text \<open>
  \<^verbatim>\<open>
  grouped = data.groupby(['publication date', 'language']).size().unstack(fill_value=0)
  \<close>
  \<^verbatim>\<open>groupby\<close> (with its defaults \<^verbatim>\<open>sort=True, dropna=True\<close>) leaves out every row with a
  missing key and orders the groups by key; \<^verbatim>\<open>size()\<close> is the number of rows of each group.
\<close>

definition groupby_size :: "(scalar \<times> scalar) list \<Rightarrow> ((scalar \<times> scalar) \<times> int) list" where
  "groupby_size keys =
     (let present = filter (\<lambda>k. \<not> isna (fst k) \<and> \<not> isna (snd k)) keys
      in map (\<lambda>k. (k, int (count_list present k))) (sort (uniq present)))"

text \<open>
  A grid: row labels, column labels, and one row of cells per row label, one cell per
  column label.
\<close>

record grid =
  grid_index :: "scalar list"
  grid_columns :: "scalar list"
  grid_cells :: "int list list"

text \<open>
  \<^verbatim>\<open>unstack(fill_value=...)\<close> of a series keyed by pairs: the first components become the row
  labels, the second components the column labels, both distinct and ascending; a cell
  holds the entry of its pair, or the fill value when the series has none.
\<close>

definition unstack :: "((scalar \<times> scalar) \<times> int) list \<Rightarrow> int \<Rightarrow> grid" where
  "unstack s fill_value =
     (let idx = sort (uniq (map (\<lambda>e. fst (fst e)) s));
          cols = sort (uniq (map (\<lambda>e. snd (fst e)) s))
      in \<lparr> grid_index = idx, grid_columns = cols,
           grid_cells = map (\<lambda>y. map (\<lambda>l. case map_of s (y, l) of
                                             Some c \<Rightarrow> c | None \<Rightarrow> fill_value) cols) idx \<rparr>)"

definition LanguageYearAnalyzer_analyze :: "dataframe \<Rightarrow> error + grid" where
  "LanguageYearAnalyzer_analyze data =
     (case getitem data ''publication date'' of
        Inl e \<Rightarrow> Inl e
      | Inr dates \<Rightarrow>
         (case getitem data ''language'' of
            Inl e \<Rightarrow> Inl e
          | Inr languages \<Rightarrow> Inr (unstack (groupby_size (zip dates languages)) 0)))"

section \<open>Analysis Registry\<close>

text \<open>
  \<^verbatim>\<open>AnalysisContext\<close> holds a Python dict, which keeps its keys in insertion order: storing
  under a key that is there replaces the value where it stands, storing under a new key
  appends. \<^verbatim>\<open>dict.get\<close> returns \<^verbatim>\<open>None\<close> for a key that is not there.
\<close>

type_synonym 'a AnalysisContext = "(string \<times> 'a) list"

definition init :: "'a AnalysisContext" where
  "init = []"

fun register_analyzer :: "'a AnalysisContext \<Rightarrow> string \<Rightarrow> 'a \<Rightarrow> 'a AnalysisContext" where
  "register_analyzer [] key analyzer = [(key, analyzer)]"
| "register_analyzer ((k, a) # rest) key analyzer =
     (if k = key then (k, analyzer) # rest else (k, a) # register_analyzer rest key analyzer)"

fun get_analyzer :: "'a AnalysisContext \<Rightarrow> string \<Rightarrow> 'a option" where
  "get_analyzer [] key = None"
| "get_analyzer ((k, a) # rest) key = (if k = key then Some a else get_analyzer rest key)"

definition get_available_analyses :: "'a AnalysisContext \<Rightarrow> string list" where
  "get_available_analyses ctx = map fst ctx"

text \<open>
  The strategies, and the registry that \<^verbatim>\<open>CLI.__init__\<close> fills:
  \<^verbatim>\<open>
  self.analyzers.register_analyzer("1", PublicationTrendAnalyzer())
  self.analyzers.register_analyzer("2", AuthorsAnalyzer())
  self.analyzers.register_analyzer("3", LanguageDistributionAnalyzer())
  self.analyzers.register_analyzer("4", PublisherAnalyzer())
  self.analyzers.register_analyzer("5", MissingISBNAnalyzer())
  self.analyzers.register_analyzer("6", LanguageYearAnalyzer())
  \<close>
\<close>

datatype analyzer = PublicationTrendAnalyzer | AuthorsAnalyzer | LanguageDistributionAnalyzer
  | PublisherAnalyzer | MissingISBNAnalyzer | LanguageYearAnalyzer

definition CLI_analyzers :: "analyzer AnalysisContext" where
  "CLI_analyzers =
     register_analyzer (register_analyzer (register_analyzer (register_analyzer
       (register_analyzer (register_analyzer init ''1'' PublicationTrendAnalyzer)
          ''2'' AuthorsAnalyzer) ''3'' LanguageDistributionAnalyzer) ''4'' PublisherAnalyzer)
          ''5'' MissingISBNAnalyzer) ''6'' LanguageYearAnalyzer"

section \<open>Collapsing a distribution to its top ten\<close>

text \<open>
  From \<^verbatim>\<open>CLI.run\<close>, for the choices 3 (languages) and 4 (publishers), before rendering:
  \<^verbatim>\<open>
  if len(result) > 10:
      top_languages = result.head(10).copy()
      other_count = result.iloc[10:].sum()
      top_languages['Other'] = other_count
  else:
      top_languages = result
  \<close>
\<close>

definition top10_plus_other :: "series \<Rightarrow> series" where
  "top10_plus_other result =
     (if length result > 10
      then (let top = head 10 result;
                other_count = sum_list (map snd (drop 10 result))
            in series_setitem top (Str ''Other'') other_count)
      else result)"

section \<open>Strategies as objects on a store of frames\<close>

text \<open>
  \<^verbatim>\<open>IAnalyzer.analyze\<close> is called on whichever strategy the registry returns; the result is
  a Count Series, a dict of counts and trend line, or a grid.
\<close>

datatype 'f analysis_result = CountSeries series | TrendResult "'f trend_result"
  | GridResult grid

fun sum_map :: "('a \<Rightarrow> 'b) \<Rightarrow> error + 'a \<Rightarrow> error + 'b" where
  "sum_map f (Inl e) = Inl e"
| "sum_map f (Inr x) = Inr (f x)"

fun analyze :: "'f externals \<Rightarrow> analyzer \<Rightarrow> dataframe \<Rightarrow> error + 'f analysis_result" where
  "analyze ext PublicationTrendAnalyzer data =
     sum_map TrendResult (PublicationTrendAnalyzer_analyze ext data)"
| "analyze ext AuthorsAnalyzer data = sum_map CountSeries (AuthorsAnalyzer_analyze data)"
| "analyze ext LanguageDistributionAnalyzer data =
     sum_map CountSeries (LanguageDistributionAnalyzer_analyze data)"
| "analyze ext PublisherAnalyzer data = sum_map CountSeries (PublisherAnalyzer_analyze data)"
| "analyze ext MissingISBNAnalyzer data = sum_map CountSeries (MissingISBNAnalyzer_analyze data)"
| "analyze ext LanguageYearAnalyzer data = sum_map GridResult (LanguageYearAnalyzer_analyze data)"

text \<open>
  The Record Set is an object that the command loop holds in \<^verbatim>\<open>self.data\<close> and passes to
  every strategy by reference. A store maps references to frames; \<open>next_ref\<close> is the
  first reference not yet in use. pandas operations that return a frame put a new
  frame into the store; none of the operations the strategies call writes to a frame
  that exists.
\<close>

record store =
  frames :: "nat \<Rightarrow> dataframe"
  next_ref :: nat

definition alloc :: "store \<Rightarrow> dataframe \<Rightarrow> store \<times> nat" where
  "alloc st d =
     (st\<lparr>frames := (frames st)(next_ref st := d), next_ref := Suc (next_ref st)\<rparr>, next_ref st)"

text \<open>
  A strategy run on the frame at reference \<open>data\<close>. Only the Publication Trend creates a
  frame (\<^verbatim>\<open>data = data.dropna(subset=['publication date'])\<close>) and goes on with the new
  one; the other strategies read columns of the frame they are given.
\<close>

fun analyze_at ::
  "'f externals \<Rightarrow> analyzer \<Rightarrow> store \<Rightarrow> nat \<Rightarrow> store \<times> (error + 'f analysis_result)" where
  "analyze_at ext PublicationTrendAnalyzer st data =
     (case dropna_subset (frames st data) ''publication date'' of
        Inl e \<Rightarrow> (st, Inl e)
      | Inr d \<Rightarrow>
          (case alloc st d of
             (st', data') \<Rightarrow> (st', sum_map TrendResult (trend_of_dates ext (frames st' data')))))"
| "analyze_at ext AuthorsAnalyzer st data =
     (st, sum_map CountSeries (AuthorsAnalyzer_analyze (frames st data)))"
| "analyze_at ext LanguageDistributionAnalyzer st data =
     (st, sum_map CountSeries (LanguageDistributionAnalyzer_analyze (frames st data)))"
| "analyze_at ext PublisherAnalyzer st data =
     (st, sum_map CountSeries (PublisherAnalyzer_analyze (frames st data)))"
| "analyze_at ext MissingISBNAnalyzer st data =
     (st, sum_map CountSeries (MissingISBNAnalyzer_analyze (frames st data)))"
| "analyze_at ext LanguageYearAnalyzer st data =
     (st, sum_map GridResult (LanguageYearAnalyzer_analyze (frames st data)))"

section \<open>Notions used in the statements\<close>

text \<open>
  The position at which a value is first met in a sequence (the length of the sequence
  when it does not occur).
\<close>

primrec first_index :: "'a list \<Rightarrow> 'a \<Rightarrow> nat" where
  "first_index [] k = 0"
| "first_index (x # xs) k = (if x = k then 0 else Suc (first_index xs k))"

text \<open>A sequence of registrations, applied in order to an empty registry.\<close>

definition register_all :: "(string \<times> 'a) list \<Rightarrow> 'a AnalysisContext" where
  "register_all regs = foldl (\<lambda>ctx r. register_analyzer ctx (fst r) (snd r)) init regs"

text \<open>A row in which both grouping keys of the Language-by-Year Grid are present.\<close>

definition complete_keys :: "(string \<Rightarrow> scalar) \<Rightarrow> bool" where
  "complete_keys row = (row ''publication date'' \<noteq> NA \<and> row ''language'' \<noteq> NA)"

section \<open>Sample data\<close>

text \<open>
  The ISBN column of the repository's test fixture: eight rows, the third and the fifth
  missing.
\<close>

definition isbn_row :: "scalar \<Rightarrow> string \<Rightarrow> scalar" where
  "isbn_row v = (\<lambda>c. if c = ''ISBN'' then v else NA)"

definition sample_isbn :: dataframe where
  "sample_isbn = \<lparr> df_columns = [''ISBN''],
     df_rows = map isbn_row [Str ''123'', Str ''456'', NA, Str ''789'', NA, Str ''012'',
                             Str ''345'', Str ''678''] \<rparr>"

text \<open>The author column of the specification's example: A, B, A, C, A, B, D, E.\<close>

definition author_row :: "scalar \<Rightarrow> string \<Rightarrow> scalar" where
  "author_row v = (\<lambda>c. if c = ''author'' then v else NA)"

definition sample_authors :: dataframe where
  "sample_authors = \<lparr> df_columns = [''author''],
     df_rows = map author_row [Str ''A'', Str ''B'', Str ''A'', Str ''C'', Str ''A'',
        Str ''B'', Str ''D'', Str ''E''] \<rparr>"

text \<open>
  A language distribution of eleven entries, in descending order of count, in which the
  dataset itself has a language called \<^verbatim>\<open>Other\<close>.
\<close>

definition languages_with_other :: series where
  "languages_with_other =
     [(Str ''English'', 40), (Str ''Other'', 12), (Str ''Tamil'', 9), (Str ''French'', 8),
      (Str ''German'', 7), (Str ''Spanish'', 6), (Str ''Hindi'', 5), (Str ''Arabic'', 4),
      (Str ''Latin'', 3), (Str ''Greek'', 2), (Str ''Dutch'', 1)]"

text \<open>
  Frames with a publication date and a language: four rows of which one has no
  publication date, and a single row that has a year and no language.
\<close>

definition year_language_row :: "scalar \<Rightarrow> scalar \<Rightarrow> string \<Rightarrow> scalar" where
  "year_language_row y l =
     (\<lambda>c. if c = ''publication date'' then y else if c = ''language'' then l else NA)"

definition sample_year_language :: dataframe where
  "sample_year_language = \<lparr> df_columns = [''publication date'', ''language''],
     df_rows = [year_language_row (Num (Fin 2021)) (Str ''ta''),
                year_language_row (Num (Fin 2020)) (Str ''en''),
                year_language_row NA (Str ''en''),
                year_language_row (Num (Fin 2020)) (Str ''en'')] \<rparr>"

definition year_without_language :: dataframe where
  "year_without_language = \<lparr> df_columns = [''publication date'', ''language''],
     df_rows = [year_language_row (Num (Fin 2020)) NA] \<rparr>"

text \<open>
  Stand-ins for the floating-point routines, to run the Publication Trend on concrete
  frames: the parser reads unsigned decimal numerals only, and the regression result
  carries no information.
\<close>

definition digit_of :: "char \<Rightarrow> nat option" where
  "digit_of c = (if CHR ''0'' \<le> c \<and> c \<le> CHR ''9'' then Some (of_char c - 48) else None)"

fun decimal :: "nat \<Rightarrow> string \<Rightarrow> nat option" where
  "decimal acc [] = Some acc"
| "decimal acc (c # cs) =
     (case digit_of c of None \<Rightarrow> None | Some d \<Rightarrow> decimal (10 * acc + d) cs)"

definition parse_decimal :: "string \<Rightarrow> number option" where
  "parse_decimal s =
     (if s = [] then None
      else case decimal 0 s of None \<Rightarrow> None | Some n \<Rightarrow> Some (Fin (of_nat n)))"

definition sample_externals :: "unit externals" where
  "sample_externals = \<lparr> parse_number = parse_decimal, linregress = (\<lambda>x y. ((), (), ())),
     format_2f = (\<lambda>f. ''nan''), square = (\<lambda>f. f) \<rparr>"

text \<open>
  The publication dates of the repository's test fixture, and frames in which one
  publication date is infinite.
\<close>

definition date_row :: "scalar \<Rightarrow> string \<Rightarrow> scalar" where
  "date_row v = (\<lambda>c. if c = ''publication date'' then v else NA)"

definition sample_dates :: dataframe where
  "sample_dates = \<lparr> df_columns = [''publication date''],
     df_rows = map date_row [Str ''2020'', Str ''2021'', Str ''2020'', Str ''Invalid'', NA,
        Str ''2022'', Str ''1900'', Str ''2150''] \<rparr>"

definition dates_with_infinity :: dataframe where
  "dates_with_infinity = \<lparr> df_columns = [''publication date''],
     df_rows = map date_row [Num (Fin 2020), Num PosInf, Num (Fin 2021)] \<rparr>"

definition date_minus_infinity :: dataframe where
  "date_minus_infinity = \<lparr> df_columns = [''publication date''],
     df_rows = map date_row [Num NegInf] \<rparr>"

text \<open>A frame with the five columns the strategies read and no rows.\<close>

definition empty_books :: dataframe where
  "empty_books = \<lparr> df_columns = [''publication date'', ''author'', ''language'',
     ''book publisher'', ''ISBN''], df_rows = [] \<rparr>"

section \<open>Properties\<close>

subsection \<open>Missing-ISBN Ratio\<close>

lemma length_filter_compl:
  "length (filter P xs) + length (filter (\<lambda>x. \<not> P x) xs) = length xs"
  by (induction xs) auto

text \<open>
  C3. On a frame that has an \<^verbatim>\<open>ISBN\<close> column the strategy returns exactly two entries,
  \<^verbatim>\<open>Missing ISBN\<close> first and \<^verbatim>\<open>With ISBN\<close> second; the first count is the number of rows
  whose ISBN is missing, the second the number of rows whose ISBN is present, and the two
  add up to the number of rows.
\<close>

theorem missing_isbn_counts:
  assumes "''ISBN'' \<in> set (df_columns data)"
  shows "\<exists>m p. MissingISBNAnalyzer_analyze data =
             Inr [(Str ''Missing ISBN'', m), (Str ''With ISBN'', p)]
           \<and> m = int (length (filter (\<lambda>r. r ''ISBN'' = NA) (df_rows data)))
           \<and> p = int (length (filter (\<lambda>r. r ''ISBN'' \<noteq> NA) (df_rows data)))
           \<and> m + p = len data"
proof -
  let ?rs = "df_rows data"
  have col: "getitem data ''ISBN'' = Inr (map (\<lambda>r. r ''ISBN'') ?rs)"
    using assms by (simp add: getitem_def)
  have m: "isna_sum (map (\<lambda>r. r ''ISBN'') ?rs)
             = int (length (filter (\<lambda>r. r ''ISBN'' = NA) ?rs))"
    by (simp add: isna_sum_def isna_def filter_map comp_def)
  have split: "length (filter (\<lambda>r. r ''ISBN'' = NA) ?rs)
                 + length (filter (\<lambda>r. r ''ISBN'' \<noteq> NA) ?rs) = length ?rs"
    by (rule length_filter_compl)
  have p: "len data - int (length (filter (\<lambda>r. r ''ISBN'' = NA) ?rs))
             = int (length (filter (\<lambda>r. r ''ISBN'' \<noteq> NA) ?rs))"
    using split by (simp add: len_def)
  show ?thesis
    using split by (simp add: MissingISBNAnalyzer_analyze_def col m p Let_def len_def)
qed

theorem missing_isbn_counts_witness:
  "''ISBN'' \<in> set (df_columns sample_isbn)
   \<and> MissingISBNAnalyzer_analyze sample_isbn
       = Inr [(Str ''Missing ISBN'', 2), (Str ''With ISBN'', 6)]"
proof -
  have h: "''ISBN'' \<in> set (df_columns sample_isbn)"
    by (simp add: sample_isbn_def)
  have m: "int (length (filter (\<lambda>r. r ''ISBN'' = NA) (df_rows sample_isbn))) = 2"
    by (simp add: sample_isbn_def isbn_row_def)
  have p: "int (length (filter (\<lambda>r. r ''ISBN'' \<noteq> NA) (df_rows sample_isbn))) = 6"
    by (simp add: sample_isbn_def isbn_row_def)
  from missing_isbn_counts [OF h] m p show ?thesis
    using h by auto
qed

subsection \<open>Counting values\<close>

lemma set_uniq [simp]: "set (uniq xs) = set xs"
  by (induction xs) auto

lemma distinct_uniq [simp]: "distinct (uniq xs)"
  by (induction xs) auto

lemma uniq_first_index:
  "sorted_wrt (\<lambda>a b. first_index xs a < first_index xs b) (uniq xs)"
proof (induction xs)
  case Nil
  show ?case by simp
next
  case (Cons x xs)
  have "sorted_wrt (\<lambda>a b. first_index xs a < first_index xs b) (filter (\<lambda>y. y \<noteq> x) (uniq xs))"
    using Cons.IH by (rule sorted_wrt_filter)
  then have "sorted_wrt (\<lambda>a b. first_index (x # xs) a < first_index (x # xs) b)
               (filter (\<lambda>y. y \<noteq> x) (uniq xs))"
    by (rule sorted_wrt_mono_rel [rotated]) auto
  then show ?case by auto
qed

lemma insort_key_lex:
  assumes "sorted_wrt (\<lambda>a b. f a < f b \<or> (f a = f b \<and> Q a b)) ys"
    and "\<forall>y \<in> set ys. Q x y"
  shows "sorted_wrt (\<lambda>a b. f a < f b \<or> (f a = f b \<and> Q a b)) (insort_key f x ys)"
  using assms
proof (induction ys)
  case Nil
  show ?case by simp
next
  case (Cons y ys)
  show ?case
  proof (cases "f x \<le> f y")
    case True
    then show ?thesis using Cons.prems by (auto simp: less_le)
  next
    case False
    then show ?thesis using Cons by (auto simp: set_insort_key)
  qed
qed

lemma sort_key_lex:
  assumes "sorted_wrt Q xs"
  shows "sorted_wrt (\<lambda>a b. f a < f b \<or> (f a = f b \<and> Q a b)) (sort_key f xs)"
  using assms
proof (induction xs)
  case Nil
  show ?case by simp
next
  case (Cons x xs)
  then show ?case by (auto intro!: insort_key_lex)
qed

lemma first_index_filter:
  assumes "P a" and "P b"
  shows "first_index (filter P xs) a < first_index (filter P xs) b
           \<longleftrightarrow> first_index xs a < first_index xs b"
  using assms by (induction xs) auto

lemma set_value_counts:
  "set (value_counts vs) = (\<lambda>k. (k, int (count_list vs k))) ` set vs"
  by (simp add: value_counts_def)

lemma distinct_keys_insort_key:
  "distinct (map g (insort_key f x xs)) = (g x \<notin> g ` set xs \<and> distinct (map g xs))"
  by (induction xs) (auto simp: set_insort_key)

lemma distinct_keys_sort_key:
  "distinct (map g (sort_key f xs)) = distinct (map g xs)"
  by (induction xs) (auto simp: distinct_keys_insort_key)

lemma distinct_value_counts: "distinct (map fst (value_counts vs))"
  by (simp add: value_counts_def distinct_keys_sort_key comp_def)

lemma value_counts_order:
  "sorted_wrt (\<lambda>a b. snd b < snd a
       \<or> (snd a = snd b \<and> first_index vs (fst a) < first_index vs (fst b)))
     (value_counts vs)"
proof -
  let ?Q = "\<lambda>a b :: 'a \<times> int. first_index vs (fst a) < first_index vs (fst b)"
  have "sorted_wrt ?Q (map (\<lambda>k. (k, int (count_list vs k))) (uniq vs))"
    using uniq_first_index [of vs] by (simp add: sorted_wrt_map)
  from sort_key_lex [OF this, of "\<lambda>e. - snd e"]
  show ?thesis
    by (simp add: value_counts_def)
qed

lemma count_list_column:
  "count_list (map f rs) k = length (filter (\<lambda>r. f r = k) rs)"
  by (induction rs) auto

lemma count_list_filter:
  "P k \<Longrightarrow> count_list (filter P xs) k = count_list xs k"
  by (induction xs) auto

lemma sorted_wrt_take_drop:
  assumes "sorted_wrt R xs" and "a \<in> set (take n xs)" and "b \<in> set (drop n xs)"
  shows "R a b"
proof -
  have "sorted_wrt R (take n xs @ drop n xs)"
    using assms(1) by simp
  then show ?thesis
    using assms(2,3) unfolding sorted_wrt_append by blast
qed

subsection \<open>Top Authors\<close>

text \<open>
  C5. On a frame that has an \<^verbatim>\<open>author\<close> column the strategy returns at most five entries
  with pairwise distinct labels; no label is the missing marker, and each count is the
  number of rows with that author (so it is positive). The entries are ordered by
  descending count, and entries of equal count by the row at which their author first
  appears; in particular the counts are non-increasing. They are the top five: an author
  left out occurs only when there are five entries, and no more often than any author
  kept.
\<close>

theorem top_authors:
  assumes "''author'' \<in> set (df_columns data)"
  shows "\<exists>r. AuthorsAnalyzer_analyze data = Inr r
    \<and> length r \<le> 5
    \<and> distinct (map fst r)
    \<and> (\<forall>e \<in> set r. fst e \<noteq> NA
          \<and> snd e = int (length (filter (\<lambda>row. row ''author'' = fst e) (df_rows data)))
          \<and> 0 < snd e)
    \<and> sorted_wrt (\<lambda>a b. snd b < snd a
          \<or> (snd a = snd b
              \<and> first_index (map (\<lambda>row. row ''author'') (df_rows data)) (fst a)
                  < first_index (map (\<lambda>row. row ''author'') (df_rows data)) (fst b))) r
    \<and> sorted_wrt (\<lambda>a b. snd b \<le> snd a) r
    \<and> (\<forall>row \<in> set (df_rows data). row ''author'' \<noteq> NA
          \<and> row ''author'' \<notin> fst ` set r
          \<longrightarrow> length r = 5
            \<and> (\<forall>e \<in> set r. int (length (filter (\<lambda>row'. row' ''author'' = row ''author'')
                                 (df_rows data))) \<le> snd e))"
proof -
  let ?col = "map (\<lambda>row. row ''author'') (df_rows data)"
  let ?vs = "dropna ?col"
  let ?full = "value_counts ?vs"
  let ?r = "head 5 ?full"
  let ?R = "\<lambda>a b :: scalar \<times> int. snd b < snd a
          \<or> (snd a = snd b \<and> first_index ?col (fst a) < first_index ?col (fst b))"
  have res: "AuthorsAnalyzer_analyze data = Inr ?r"
    using assms by (simp add: AuthorsAnalyzer_analyze_def getitem_def)
  have notna: "\<And>v. v \<in> set ?vs \<Longrightarrow> v \<noteq> NA"
    by (auto simp: dropna_def isna_def)
  have cnt: "\<And>k. k \<noteq> NA \<Longrightarrow>
      int (count_list ?vs k) = int (length (filter (\<lambda>row. row ''author'' = k) (df_rows data)))"
    by (simp add: dropna_def isna_def count_list_filter count_list_column)
  have full_entries: "\<And>e. e \<in> set ?full \<Longrightarrow>
      fst e \<in> set ?vs \<and> snd e = int (count_list ?vs (fst e))"
    by (auto simp: set_value_counts)
  have sub: "set ?r \<subseteq> set ?full"
    by (simp add: head_def set_take_subset)
  have len: "length ?r \<le> 5"
    by (simp add: head_def)
  have dist: "distinct (map fst ?r)"
    using distinct_value_counts [of ?vs] by (simp add: head_def take_map [symmetric])
  have entries: "\<forall>e \<in> set ?r. fst e \<noteq> NA
      \<and> snd e = int (length (filter (\<lambda>row. row ''author'' = fst e) (df_rows data)))
      \<and> 0 < snd e"
  proof
    fix e assume "e \<in> set ?r"
    then have "e \<in> set ?full"
      using sub by blast
    from full_entries [OF this]
    have e: "fst e \<in> set ?vs" "snd e = int (count_list ?vs (fst e))"
      by blast+
    then have "fst e \<noteq> NA" using notna by blast
    moreover have "0 < count_list ?vs (fst e)"
      using e(1) count_list_0_iff [of ?vs "fst e"] by simp
    ultimately show "fst e \<noteq> NA
      \<and> snd e = int (length (filter (\<lambda>row. row ''author'' = fst e) (df_rows data)))
      \<and> 0 < snd e"
      using e(2) cnt by simp
  qed
  have ord_vs: "sorted_wrt (\<lambda>a b. snd b < snd a
       \<or> (snd a = snd b \<and> first_index ?vs (fst a) < first_index ?vs (fst b))) ?full"
    by (rule value_counts_order)
  have ord_full: "sorted_wrt ?R ?full"
  proof (rule sorted_wrt_mono_rel [OF _ ord_vs])
    fix a b assume a: "a \<in> set ?full" and b: "b \<in> set ?full"
      and ab: "snd b < snd a
       \<or> (snd a = snd b \<and> first_index ?vs (fst a) < first_index ?vs (fst b))"
    have "\<not> isna (fst a)" "\<not> isna (fst b)"
      using full_entries [OF a] full_entries [OF b] notna by (auto simp: isna_def)
    then have "first_index ?vs (fst a) < first_index ?vs (fst b)
        \<longleftrightarrow> first_index ?col (fst a) < first_index ?col (fst b)"
      unfolding dropna_def by (rule first_index_filter)
    then show "?R a b" using ab by simp
  qed
  have ord: "sorted_wrt ?R ?r"
    using ord_full unfolding head_def by (rule sorted_wrt_take)
  have mono: "sorted_wrt (\<lambda>a b. snd b \<le> snd a) ?r"
    by (rule sorted_wrt_mono_rel [OF _ ord]) auto
  have top: "\<forall>row \<in> set (df_rows data). row ''author'' \<noteq> NA
          \<and> row ''author'' \<notin> fst ` set ?r
          \<longrightarrow> length ?r = 5
            \<and> (\<forall>e \<in> set ?r. int (length (filter (\<lambda>row'. row' ''author'' = row ''author'')
                                 (df_rows data))) \<le> snd e)"
  proof (intro ballI impI)
    fix row assume row: "row \<in> set (df_rows data)"
      and h: "row ''author'' \<noteq> NA \<and> row ''author'' \<notin> fst ` set ?r"
    let ?k = "row ''author''"
    let ?e = "(?k, int (count_list ?vs ?k))"
    have "?k \<in> set ?vs"
      using row h by (auto simp: dropna_def isna_def)
    then have infull: "?e \<in> set ?full"
      by (auto simp: set_value_counts)
    have notin: "?e \<notin> set ?r"
    proof
      assume "?e \<in> set ?r"
      then have "fst ?e \<in> fst ` set ?r" by (rule imageI)
      then show False using h by simp
    qed
    have "set (take 5 ?full @ drop 5 ?full) = set (take 5 ?full) \<union> set (drop 5 ?full)"
      by (rule set_append)
    then have "set ?full = set (take 5 ?full) \<union> set (drop 5 ?full)"
      by simp
    then have indrop: "?e \<in> set (drop 5 ?full)"
      using infull notin unfolding head_def by blast
    then have "drop 5 ?full \<noteq> []" by auto
    then have l5: "length ?r = 5"
      by (simp add: head_def)
    have "\<forall>e \<in> set ?r. snd ?e \<le> snd e"
    proof
      fix e assume "e \<in> set ?r"
      then have "e \<in> set (take 5 ?full)" by (simp add: head_def)
      from sorted_wrt_take_drop [OF ord_full this indrop]
      show "snd ?e \<le> snd e" by auto
    qed
    then show "length ?r = 5
            \<and> (\<forall>e \<in> set ?r. int (length (filter (\<lambda>row'. row' ''author'' = ?k)
                                 (df_rows data))) \<le> snd e)"
      using l5 cnt h by simp
  qed
  show ?thesis
    using res len dist entries ord mono top by blast
qed

theorem top_authors_witness:
  "''author'' \<in> set (df_columns sample_authors)
   \<and> AuthorsAnalyzer_analyze sample_authors
       = Inr [(Str ''A'', 3), (Str ''B'', 2), (Str ''C'', 1),
              (Str ''D'', 1), (Str ''E'', 1)]
   \<and> length [(Str ''A'', 3::int), (Str ''B'', 2), (Str ''C'', 1),
              (Str ''D'', 1), (Str ''E'', 1)] \<le> 5
   \<and> sorted_wrt (\<lambda>a b. snd b \<le> snd a)
        [(Str ''A'', 3::int), (Str ''B'', 2), (Str ''C'', 1),
         (Str ''D'', 1), (Str ''E'', 1)]"
proof -
  have h: "''author'' \<in> set (df_columns sample_authors)"
    by (simp add: sample_authors_def)
  have run: "AuthorsAnalyzer_analyze sample_authors
       = Inr [(Str ''A'', 3), (Str ''B'', 2), (Str ''C'', 1),
              (Str ''D'', 1), (Str ''E'', 1)]"
    by (simp add: AuthorsAnalyzer_analyze_def sample_authors_def author_row_def getitem_def
        dropna_def isna_def value_counts_def head_def)
  from top_authors [OF h] obtain r where
    r: "AuthorsAnalyzer_analyze sample_authors = Inr r" "length r \<le> 5"
       "sorted_wrt (\<lambda>a b. snd b \<le> snd a) r"
    by blast
  from r(1) run have "r = [(Str ''A'', 3), (Str ''B'', 2), (Str ''C'', 1),
              (Str ''D'', 1), (Str ''E'', 1)]"
    by simp
  with r(2,3) h run show ?thesis
    by simp
qed

subsection \<open>Analysis Registry\<close>

lemma get_register_same: "get_analyzer (register_analyzer ctx key a) key = Some a"
  by (induction ctx key a rule: register_analyzer.induct) auto

lemma get_register_other:
  "k \<noteq> key \<Longrightarrow> get_analyzer (register_analyzer ctx key a) k = get_analyzer ctx k"
  by (induction ctx key a rule: register_analyzer.induct) auto

lemma keys_register:
  "map fst (register_analyzer ctx key a)
     = (if key \<in> set (map fst ctx) then map fst ctx else map fst ctx @ [key])"
  by (induction ctx key a rule: register_analyzer.induct) auto

lemma get_None_iff: "(get_analyzer ctx k = None) = (k \<notin> set (map fst ctx))"
  by (induction ctx k rule: get_analyzer.induct) auto

lemma uniq_snoc: "uniq (xs @ [k]) = (if k \<in> set xs then uniq xs else uniq xs @ [k])"
  by (induction xs) auto

lemma register_all_snoc:
  "register_all (regs @ [r]) = register_analyzer (register_all regs) (fst r) (snd r)"
  by (simp add: register_all_def)

lemma keys_register_all: "map fst (register_all regs) = uniq (map fst regs)"
proof (induction regs rule: rev_induct)
  case Nil
  show ?case by (simp add: register_all_def init_def)
next
  case (snoc r regs)
  then show ?case
    by (simp add: register_all_snoc keys_register uniq_snoc)
qed

lemma get_register_all: "get_analyzer (register_all regs) k = map_of (rev regs) k"
proof (induction regs rule: rev_induct)
  case Nil
  show ?case by (simp add: register_all_def init_def)
next
  case (snoc r regs)
  show ?case
  proof (cases "k = fst r")
    case True
    then show ?thesis
      by (cases r) (simp add: register_all_snoc get_register_same)
  next
    case False
    then show ?thesis
      using snoc by (cases r) (simp add: register_all_snoc get_register_other)
  qed
qed

text \<open>
  C8. Registering under a key makes a lookup of that key return the new strategy, whether
  or not the key was registered before, and leaves every other key as it was. A lookup
  never fails: it returns the absent marker exactly for the keys that are not registered.
  The list of keys keeps the order of registration: a key registered again keeps its
  place, a new key goes to the end; so after any sequence of registrations the keys are
  listed in the order in which they were first registered, each with the strategy it
  was last given.
\<close>

theorem analysis_registry:
  "get_analyzer (register_analyzer ctx key a) key = Some a
   \<and> (\<forall>k. k \<noteq> key \<longrightarrow> get_analyzer (register_analyzer ctx key a) k = get_analyzer ctx k)
   \<and> get_available_analyses (register_analyzer ctx key a)
       = (if key \<in> set (get_available_analyses ctx) then get_available_analyses ctx
          else get_available_analyses ctx @ [key])
   \<and> (\<forall>k. (get_analyzer ctx k = None) = (k \<notin> set (get_available_analyses ctx)))
   \<and> get_available_analyses (register_all regs) = uniq (map fst regs)
   \<and> (\<forall>k. get_analyzer (register_all regs) k = map_of (rev regs) k)"
proof -
  have 1: "get_analyzer (register_analyzer ctx key a) key = Some a"
    by (rule get_register_same)
  have 2: "\<forall>k. k \<noteq> key \<longrightarrow> get_analyzer (register_analyzer ctx key a) k = get_analyzer ctx k"
    by (simp add: get_register_other)
  have 3: "get_available_analyses (register_analyzer ctx key a)
       = (if key \<in> set (get_available_analyses ctx) then get_available_analyses ctx
          else get_available_analyses ctx @ [key])"
    unfolding get_available_analyses_def by (rule keys_register)
  have 4: "\<forall>k. (get_analyzer ctx k = None) = (k \<notin> set (get_available_analyses ctx))"
    unfolding get_available_analyses_def by (simp add: get_None_iff)
  have 5: "get_available_analyses (register_all regs) = uniq (map fst regs)"
    unfolding get_available_analyses_def by (rule keys_register_all)
  have 6: "\<forall>k. get_analyzer (register_all regs) k = map_of (rev regs) k"
    by (simp add: get_register_all)
  from 1 2 3 4 5 6 show ?thesis by blast
qed

theorem analysis_registry_witness:
  "''1'' \<noteq> ''3''
   \<and> get_analyzer (register_analyzer CLI_analyzers ''3'' PublisherAnalyzer) ''3''
       = Some PublisherAnalyzer
   \<and> get_analyzer (register_analyzer CLI_analyzers ''3'' PublisherAnalyzer) ''1''
       = Some PublicationTrendAnalyzer
   \<and> get_available_analyses (register_analyzer CLI_analyzers ''3'' PublisherAnalyzer)
       = [''1'', ''2'', ''3'', ''4'', ''5'', ''6'']
   \<and> get_analyzer CLI_analyzers ''7'' = None"
proof -
  have keys: "get_available_analyses CLI_analyzers = [''1'', ''2'', ''3'', ''4'', ''5'', ''6'']"
    by (simp add: CLI_analyzers_def init_def get_available_analyses_def)
  have g1: "get_analyzer CLI_analyzers ''1'' = Some PublicationTrendAnalyzer"
    by (simp add: CLI_analyzers_def init_def)
  have ne: "''1'' \<noteq> ''3''" by simp
  note reg = analysis_registry [of CLI_analyzers "''3''" PublisherAnalyzer "[]"]
  from reg have a: "get_analyzer (register_analyzer CLI_analyzers ''3'' PublisherAnalyzer) ''3''
             = Some PublisherAnalyzer"
    by (rule conjunct1)
  from reg have b: "\<forall>k. k \<noteq> ''3'' \<longrightarrow>
             get_analyzer (register_analyzer CLI_analyzers ''3'' PublisherAnalyzer) k
               = get_analyzer CLI_analyzers k"
    by blast
  from reg have c: "get_available_analyses (register_analyzer CLI_analyzers ''3'' PublisherAnalyzer)
       = (if ''3'' \<in> set (get_available_analyses CLI_analyzers)
          then get_available_analyses CLI_analyzers
          else get_available_analyses CLI_analyzers @ [''3''])"
    by blast
  from reg have d: "\<forall>k. (get_analyzer CLI_analyzers k = None)
               = (k \<notin> set (get_available_analyses CLI_analyzers))"
    by blast
  from b ne g1
  have b': "get_analyzer (register_analyzer CLI_analyzers ''3'' PublisherAnalyzer) ''1''
              = Some PublicationTrendAnalyzer"
    by simp
  from c keys
  have c': "get_available_analyses (register_analyzer CLI_analyzers ''3'' PublisherAnalyzer)
       = [''1'', ''2'', ''3'', ''4'', ''5'', ''6'']"
    by simp
  from d keys have d': "get_analyzer CLI_analyzers ''7'' = None"
    by simp
  show ?thesis
    using ne a b' c' d' by blast
qed

subsection \<open>Top ten plus Other\<close>

text \<open>
  Without a label \<^verbatim>\<open>Other\<close> among the first ten entries the collapsed series has the
  first ten entries, then \<^verbatim>\<open>Other\<close> with the sum of the rest, and the same total; a series
  of at most ten entries is passed on as it is.
\<close>

lemma setitem_new:
  "label \<notin> fst ` set s \<Longrightarrow> series_setitem s label v = s @ [(label, v)]"
  by (induction s label v rule: series_setitem.induct) auto

lemma top10_plus_other_no_collision:
  assumes "10 < length result"
    and "Str ''Other'' \<notin> fst ` set (take 10 result)"
  shows "top10_plus_other result
           = take 10 result @ [(Str ''Other'', sum_list (map snd (drop 10 result)))]
       \<and> length (top10_plus_other result) = 11
       \<and> sum_list (map snd (top10_plus_other result)) = sum_list (map snd result)"
proof -
  have eq: "top10_plus_other result
           = take 10 result @ [(Str ''Other'', sum_list (map snd (drop 10 result)))]"
    using assms by (simp add: top10_plus_other_def head_def setitem_new)
  have len: "length (top10_plus_other result) = 11"
    using assms(1) by (simp add: eq)
  have "sum_list (map snd (take 10 result @ drop 10 result)) = sum_list (map snd result)"
    by simp
  then have "sum_list (map snd (top10_plus_other result)) = sum_list (map snd result)"
    by (simp add: eq del: append_take_drop_id)
  with eq len show ?thesis by blast
qed

lemma top10_plus_other_short:
  "length result \<le> 10 \<Longrightarrow> top10_plus_other result = result"
  by (simp add: top10_plus_other_def)

text \<open>
  C9 does not hold for every distribution: \<^verbatim>\<open>top_languages['Other'] = other_count\<close> replaces
  the entry of a label \<^verbatim>\<open>Other\<close> that is already among the first ten. On the sample
  distribution of eleven entries the result has ten entries, not eleven, the count 12 of
  the dataset's own \<^verbatim>\<open>Other\<close> is lost, and the total drops from 97 to 85.
\<close>

theorem top10_plus_other_collision:
  "length languages_with_other = 11
   \<and> top10_plus_other languages_with_other
       = [(Str ''English'', 40), (Str ''Other'', 1), (Str ''Tamil'', 9), (Str ''French'', 8),
          (Str ''German'', 7), (Str ''Spanish'', 6), (Str ''Hindi'', 5), (Str ''Arabic'', 4),
          (Str ''Latin'', 3), (Str ''Greek'', 2)]
   \<and> length (top10_plus_other languages_with_other) = 10
   \<and> sum_list (map snd languages_with_other) = 97
   \<and> sum_list (map snd (top10_plus_other languages_with_other)) = 85"
  by (simp add: languages_with_other_def top10_plus_other_def head_def)

subsection \<open>Language-by-Year Grid\<close>

lemma map_of_tabulate:
  "map_of (map (\<lambda>k. (k, f k)) ks) k = (if k \<in> set ks then Some (f k) else None)"
  by (induction ks) auto

lemma zip_columns: "zip (map f rs) (map g rs) = map (\<lambda>r. (f r, g r)) rs"
  by (induction rs) auto

lemma unstack_groupby_size:
  "unstack (groupby_size keys) 0 =
     (let present = filter (\<lambda>k. \<not> isna (fst k) \<and> \<not> isna (snd k)) keys;
          idx = sort (uniq (map fst (sort (uniq present))));
          cols = sort (uniq (map snd (sort (uniq present))))
      in \<lparr> grid_index = idx, grid_columns = cols,
           grid_cells = map (\<lambda>y. map (\<lambda>l. int (count_list present (y, l))) cols) idx \<rparr>)"
proof -
  let ?present = "filter (\<lambda>k. \<not> isna (fst k) \<and> \<not> isna (snd k)) keys"
  let ?ks = "sort (uniq ?present)"
  have cell: "\<And>y l. (case map_of (map (\<lambda>k. (k, int (count_list ?present k))) ?ks) (y, l) of
                  Some c \<Rightarrow> c | None \<Rightarrow> 0) = int (count_list ?present (y, l))"
    by (simp add: map_of_tabulate)
  show ?thesis
    unfolding unstack_def groupby_size_def Let_def
    by (simp add: cell comp_def)
qed

lemma grid_of_frame:
  assumes "''publication date'' \<in> set (df_columns data)"
    and "''language'' \<in> set (df_columns data)"
  shows "LanguageYearAnalyzer_analyze data =
     Inr (unstack (groupby_size
            (map (\<lambda>r. (r ''publication date'', r ''language'')) (df_rows data))) 0)"
  using assms by (simp add: LanguageYearAnalyzer_analyze_def getitem_def zip_columns)

lemma present_keys:
  "filter (\<lambda>k. \<not> isna (fst k) \<and> \<not> isna (snd k))
      (map (\<lambda>r. (r ''publication date'', r ''language'')) rs)
   = map (\<lambda>r. (r ''publication date'', r ''language'')) (filter complete_keys rs)"
  by (induction rs) (auto simp: complete_keys_def isna_def)

lemma count_list_keys:
  "count_list (map (\<lambda>r. (f r, g r)) rs) (y, l) = length (filter (\<lambda>r. f r = y \<and> g r = l) rs)"
  by (induction rs) auto

lemma sum_list_concat_rows: "sum_list (concat xss) = sum_list (map sum_list xss)"
  by (induction xss) auto

lemma sum_cells:
  assumes "distinct ys" and "distinct ls" and "set ps \<subseteq> set ys \<times> set ls"
  shows "sum_list (concat (map (\<lambda>y. map (\<lambda>l. int (count_list ps (y, l))) ls) ys))
           = int (length ps)"
proof -
  have "sum_list (concat (map (\<lambda>y. map (\<lambda>l. int (count_list ps (y, l))) ls) ys))
      = sum_list (map (\<lambda>y. sum_list (map (\<lambda>l. int (count_list ps (y, l))) ls)) ys)"
    by (simp add: sum_list_concat_rows comp_def)
  also have "\<dots> = (\<Sum>y \<in> set ys. \<Sum>l \<in> set ls. int (count_list ps (y, l)))"
    using assms(1,2) by (simp add: sum_list_distinct_conv_sum_set)
  also have "\<dots> = (\<Sum>p \<in> set ys \<times> set ls. int (count_list ps p))"
    by (simp add: sum.cartesian_product)
  also have "\<dots> = int (\<Sum>p \<in> set ys \<times> set ls. count_list ps p)"
    by simp
  also have "\<dots> = int (length ps)"
    using sum_count_set [OF assms(3)] by simp
  finally show ?thesis .
qed

text \<open>
  C4, as amended. On a frame that has the columns \<^verbatim>\<open>publication date\<close> and \<^verbatim>\<open>language\<close>
  the strategy returns a grid whose row labels are the distinct publication dates of the
  rows in which both keys are present, in ascending order, and whose column labels are
  the distinct languages of those rows, in ascending order; every cell holds the number
  of rows of the frame with the cell's publication date and language, which is 0 for a
  combination that no row has.
\<close>

theorem language_year_grid:
  assumes "''publication date'' \<in> set (df_columns data)"
    and "''language'' \<in> set (df_columns data)"
  shows "\<exists>g. LanguageYearAnalyzer_analyze data = Inr g
    \<and> sorted (grid_index g) \<and> distinct (grid_index g)
    \<and> set (grid_index g)
         = (\<lambda>r. r ''publication date'') ` {r \<in> set (df_rows data). complete_keys r}
    \<and> sorted (grid_columns g) \<and> distinct (grid_columns g)
    \<and> set (grid_columns g) = (\<lambda>r. r ''language'') ` {r \<in> set (df_rows data). complete_keys r}
    \<and> grid_cells g
         = map (\<lambda>y. map (\<lambda>l. int (length (filter
                  (\<lambda>r. r ''publication date'' = y \<and> r ''language'' = l) (df_rows data))))
                (grid_columns g)) (grid_index g)"
proof -
  let ?key = "\<lambda>r. (r ''publication date'', r ''language'')"
  let ?rs = "filter complete_keys (df_rows data)"
  let ?present = "map ?key ?rs"
  let ?idx = "sort (uniq (map fst (sort (uniq ?present))))"
  let ?cols = "sort (uniq (map snd (sort (uniq ?present))))"
  let ?g = "\<lparr> grid_index = ?idx, grid_columns = ?cols,
             grid_cells = map (\<lambda>y. map (\<lambda>l. int (count_list ?present (y, l))) ?cols) ?idx \<rparr>"
  have res: "LanguageYearAnalyzer_analyze data = Inr ?g"
    by (simp add: grid_of_frame [OF assms] unstack_groupby_size present_keys Let_def)
  have idx: "set ?idx = (\<lambda>r. r ''publication date'') ` {r \<in> set (df_rows data). complete_keys r}"
    by (auto simp: set_uniq image_iff)
  have cols: "set ?cols = (\<lambda>r. r ''language'') ` {r \<in> set (df_rows data). complete_keys r}"
    by (auto simp: set_uniq image_iff)
  have cell: "\<And>y l. y \<in> set ?idx \<Longrightarrow> l \<in> set ?cols \<Longrightarrow>
      int (count_list ?present (y, l))
        = int (length (filter (\<lambda>r. r ''publication date'' = y \<and> r ''language'' = l)
                 (df_rows data)))"
  proof -
    fix y l assume "y \<in> set ?idx" and "l \<in> set ?cols"
    then have "y \<noteq> NA" and "l \<noteq> NA"
      unfolding idx cols by (auto simp: complete_keys_def)
    then have "filter (\<lambda>r. r ''publication date'' = y \<and> r ''language'' = l) ?rs
        = filter (\<lambda>r. r ''publication date'' = y \<and> r ''language'' = l) (df_rows data)"
      by (auto simp: complete_keys_def intro: filter_cong)
    then show "int (count_list ?present (y, l))
        = int (length (filter (\<lambda>r. r ''publication date'' = y \<and> r ''language'' = l)
                 (df_rows data)))"
      by (simp add: count_list_keys)
  qed
  have cells: "grid_cells ?g
         = map (\<lambda>y. map (\<lambda>l. int (length (filter
                  (\<lambda>r. r ''publication date'' = y \<and> r ''language'' = l) (df_rows data))))
                (grid_columns ?g)) (grid_index ?g)"
    using cell by (simp cong: map_cong)
  have "sorted (grid_index ?g)" "distinct (grid_index ?g)"
       "sorted (grid_columns ?g)" "distinct (grid_columns ?g)"
    by simp_all
  moreover have "set (grid_index ?g)
         = (\<lambda>r. r ''publication date'') ` {r \<in> set (df_rows data). complete_keys r}"
    using idx by simp
  moreover have "set (grid_columns ?g)
         = (\<lambda>r. r ''language'') ` {r \<in> set (df_rows data). complete_keys r}"
    using cols by simp
  ultimately show ?thesis
    using res cells by blast
qed

theorem language_year_grid_witness:
  "''publication date'' \<in> set (df_columns sample_year_language)
   \<and> ''language'' \<in> set (df_columns sample_year_language)
   \<and> LanguageYearAnalyzer_analyze sample_year_language
       = Inr \<lparr> grid_index = [Num (Fin 2020), Num (Fin 2021)],
               grid_columns = [Str ''en'', Str ''ta''],
               grid_cells = [[2, 0], [0, 1]] \<rparr>
   \<and> sorted [Num (Fin 2020), Num (Fin 2021)]
   \<and> distinct [Str ''en'', Str ''ta'']"
proof -
  have h1: "''publication date'' \<in> set (df_columns sample_year_language)"
    and h2: "''language'' \<in> set (df_columns sample_year_language)"
    by (simp_all add: sample_year_language_def)
  have run: "LanguageYearAnalyzer_analyze sample_year_language
       = Inr \<lparr> grid_index = [Num (Fin 2020), Num (Fin 2021)],
               grid_columns = [Str ''en'', Str ''ta''],
               grid_cells = [[2, 0], [0, 1]] \<rparr>"
    by code_simp
  from language_year_grid [OF h1 h2] obtain g where
    g: "LanguageYearAnalyzer_analyze sample_year_language = Inr g"
       "sorted (grid_index g)" "distinct (grid_columns g)"
    by blast
  from g(1) run have "g = \<lparr> grid_index = [Num (Fin 2020), Num (Fin 2021)],
               grid_columns = [Str ''en'', Str ''ta''],
               grid_cells = [[2, 0], [0, 1]] \<rparr>"
    by simp
  with g(2,3) have "sorted [Num (Fin 2020), Num (Fin 2021)]" "distinct [Str ''en'', Str ''ta'']"
    by simp_all
  with h1 h2 run show ?thesis
    by blast
qed

text \<open>
  C4 as stated takes the row labels to be the distinct publication dates of the frame.
  A frame whose only row has the year 2020 and no language has that year among its
  publication dates and gets a grid without rows.
\<close>

theorem language_year_grid_counterexample:
  "LanguageYearAnalyzer_analyze year_without_language
     = Inr \<lparr> grid_index = [], grid_columns = [], grid_cells = [] \<rparr>
   \<and> dropna (map (\<lambda>r. r ''publication date'') (df_rows year_without_language))
       = [Num (Fin 2020)]"
  by (simp add: LanguageYearAnalyzer_analyze_def year_without_language_def getitem_def
      year_language_row_def groupby_size_def unstack_def isna_def dropna_def)

text \<open>
  C10. On a frame that has both columns the rows with a missing publication date or a
  missing language do not reach the grid: the strategy returns what it returns on the
  frame without them. The cells add up to the number of rows with both keys present,
  which is at most the number of rows and strictly less as soon as one row lacks a key.
\<close>

theorem language_year_excludes_missing:
  assumes "''publication date'' \<in> set (df_columns data)"
    and "''language'' \<in> set (df_columns data)"
  shows "LanguageYearAnalyzer_analyze data
           = LanguageYearAnalyzer_analyze (data\<lparr>df_rows := filter complete_keys (df_rows data)\<rparr>)
    \<and> (\<exists>g. LanguageYearAnalyzer_analyze data = Inr g
          \<and> sum_list (concat (grid_cells g)) = int (length (filter complete_keys (df_rows data)))
          \<and> sum_list (concat (grid_cells g)) \<le> len data
          \<and> ((\<exists>r \<in> set (df_rows data). \<not> complete_keys r)
               \<longrightarrow> sum_list (concat (grid_cells g)) < len data))"
proof -
  let ?key = "\<lambda>r. (r ''publication date'', r ''language'')"
  let ?rs = "filter complete_keys (df_rows data)"
  let ?present = "map ?key ?rs"
  let ?idx = "sort (uniq (map fst (sort (uniq ?present))))"
  let ?cols = "sort (uniq (map snd (sort (uniq ?present))))"
  let ?g = "\<lparr> grid_index = ?idx, grid_columns = ?cols,
             grid_cells = map (\<lambda>y. map (\<lambda>l. int (count_list ?present (y, l))) ?cols) ?idx \<rparr>"
  have res: "LanguageYearAnalyzer_analyze data = Inr ?g"
    by (simp add: grid_of_frame [OF assms] unstack_groupby_size present_keys Let_def)
  have cols': "''publication date'' \<in> set (df_columns (data\<lparr>df_rows := ?rs\<rparr>))"
              "''language'' \<in> set (df_columns (data\<lparr>df_rows := ?rs\<rparr>))"
    using assms by simp_all
  have res': "LanguageYearAnalyzer_analyze (data\<lparr>df_rows := ?rs\<rparr>) = Inr ?g"
    by (simp add: grid_of_frame [OF cols'] unstack_groupby_size present_keys Let_def)
  have sub: "set ?present \<subseteq> set ?idx \<times> set ?cols"
    by (auto simp: set_uniq image_iff)
  have total: "sum_list (concat (grid_cells ?g)) = int (length ?rs)"
    using sum_cells [OF _ _ sub] by simp
  have le: "length ?rs \<le> length (df_rows data)"
    by (rule length_filter_le)
  have strict: "(\<exists>r \<in> set (df_rows data). \<not> complete_keys r)
                  \<longrightarrow> length ?rs < length (df_rows data)"
    by (auto intro: length_filter_less)
  have le': "sum_list (concat (grid_cells ?g)) \<le> len data"
    using le unfolding total len_def by simp
  have strict': "(\<exists>r \<in> set (df_rows data). \<not> complete_keys r)
                  \<longrightarrow> sum_list (concat (grid_cells ?g)) < len data"
    using strict unfolding total len_def by simp
  have same: "LanguageYearAnalyzer_analyze data
           = LanguageYearAnalyzer_analyze (data\<lparr>df_rows := ?rs\<rparr>)"
    using res res' by simp
  from res total le' strict'
  have "\<exists>g. LanguageYearAnalyzer_analyze data = Inr g
          \<and> sum_list (concat (grid_cells g)) = int (length ?rs)
          \<and> sum_list (concat (grid_cells g)) \<le> len data
          \<and> ((\<exists>r \<in> set (df_rows data). \<not> complete_keys r)
               \<longrightarrow> sum_list (concat (grid_cells g)) < len data)"
    by (intro exI [of _ ?g] conjI)
  with same show ?thesis by (rule conjI)
qed

theorem language_year_excludes_missing_witness:
  "''publication date'' \<in> set (df_columns sample_year_language)
   \<and> ''language'' \<in> set (df_columns sample_year_language)
   \<and> year_language_row NA (Str ''en'') \<in> set (df_rows sample_year_language)
   \<and> \<not> complete_keys (year_language_row NA (Str ''en''))
   \<and> LanguageYearAnalyzer_analyze sample_year_language
       = Inr \<lparr> grid_index = [Num (Fin 2020), Num (Fin 2021)],
               grid_columns = [Str ''en'', Str ''ta''],
               grid_cells = [[2, 0], [0, 1]] \<rparr>
   \<and> sum_list (concat [[2, 0], [0, 1 :: int]]) < len sample_year_language"
proof -
  have h1: "''publication date'' \<in> set (df_columns sample_year_language)"
    and h2: "''language'' \<in> set (df_columns sample_year_language)"
    by (simp_all add: sample_year_language_def)
  have row: "year_language_row NA (Str ''en'') \<in> set (df_rows sample_year_language)"
    by (simp add: sample_year_language_def)
  have inc: "\<not> complete_keys (year_language_row NA (Str ''en''))"
    by (simp add: complete_keys_def year_language_row_def)
  have run: "LanguageYearAnalyzer_analyze sample_year_language
       = Inr \<lparr> grid_index = [Num (Fin 2020), Num (Fin 2021)],
               grid_columns = [Str ''en'', Str ''ta''],
               grid_cells = [[2, 0], [0, 1]] \<rparr>"
    by code_simp
  from language_year_excludes_missing [OF h1 h2] obtain g where
    g: "LanguageYearAnalyzer_analyze sample_year_language = Inr g"
       "(\<exists>r \<in> set (df_rows sample_year_language). \<not> complete_keys r)
          \<longrightarrow> sum_list (concat (grid_cells g)) < len sample_year_language"
    by blast
  from g(2) row inc have lt: "sum_list (concat (grid_cells g)) < len sample_year_language"
    by blast
  from g(1) run have "g = \<lparr> grid_index = [Num (Fin 2020), Num (Fin 2021)],
               grid_columns = [Str ''en'', Str ''ta''],
               grid_cells = [[2, 0], [0, 1]] \<rparr>"
    by simp
  then have "grid_cells g = [[2, 0], [0, 1]]"
    by simp
  with lt have "sum_list (concat [[2, 0], [0, 1 :: int]]) < len sample_year_language"
    by simp
  with h1 h2 row inc run show ?thesis
    by blast
qed

end
